theory Spec2Isabelle
  imports Main
begin

section \<open>Python strings\<close>

text \<open>
  A Python \<open>str\<close> is modelled as a \<open>string\<close>; a \<open>char\<close> stands for the code point
  of the same number, so the model covers the strings over the code points 0 to 255.
  The character predicates below are the ones of \<open>str.isspace\<close>, \<open>str.isdigit\<close>,
  \<open>str.lower\<close> and of the classes \<open>\s\<close>, \<open>\d\<close>, \<open>\w\<close> of \<open>re\<close> on that range.
\<close>

definition code_point :: "char \<Rightarrow> nat" where
  "code_point c = of_char c"

definition py_isspace :: "char \<Rightarrow> bool" where
  "py_isspace c = (let n = code_point c in
     (9 \<le> n \<and> n \<le> 13) \<or> (28 \<le> n \<and> n \<le> 32) \<or> n = 133 \<or> n = 160)"

definition py_isdecimal :: "char \<Rightarrow> bool" where
  "py_isdecimal c = (let n = code_point c in 48 \<le> n \<and> n \<le> 57)"

definition py_isdigit_char :: "char \<Rightarrow> bool" where
  "py_isdigit_char c = (let n = code_point c in
     (48 \<le> n \<and> n \<le> 57) \<or> n = 178 \<or> n = 179 \<or> n = 185)"

definition py_isword :: "char \<Rightarrow> bool" where
  "py_isword c = (let n = code_point c in
     (48 \<le> n \<and> n \<le> 57) \<or> (65 \<le> n \<and> n \<le> 90) \<or> n = 95 \<or> (97 \<le> n \<and> n \<le> 122)
     \<or> n = 170 \<or> n = 178 \<or> n = 179 \<or> n = 181 \<or> n = 185 \<or> n = 186
     \<or> (188 \<le> n \<and> n \<le> 190) \<or> (192 \<le> n \<and> n \<le> 214)
     \<or> (216 \<le> n \<and> n \<le> 246) \<or> (248 \<le> n \<and> n \<le> 255))"

definition lower_char :: "char \<Rightarrow> char" where
  "lower_char c = (let n = code_point c in
     if (65 \<le> n \<and> n \<le> 90) \<or> (192 \<le> n \<and> n \<le> 222 \<and> n \<noteq> 215)
     then char_of (n + 32) else c)"

definition lower :: "string \<Rightarrow> string" where
  "lower s = map lower_char s"

text \<open>\<open>s.strip()\<close> and \<open>s.strip(chars)\<close>.\<close>

definition strip_with :: "(char \<Rightarrow> bool) \<Rightarrow> string \<Rightarrow> string" where
  "strip_with P s = rev (dropWhile P (rev (dropWhile P s)))"

definition strip :: "string \<Rightarrow> string" where
  "strip s = strip_with py_isspace s"

definition strip_chars :: "string \<Rightarrow> string \<Rightarrow> string" where
  "strip_chars chars s = strip_with (\<lambda>c. c \<in> set chars) s"

text \<open>\<open>s.isdigit()\<close>: false on the empty string.\<close>

definition isdigit :: "string \<Rightarrow> bool" where
  "isdigit s = (s \<noteq> [] \<and> list_all py_isdigit_char s)"

text \<open>\<open>kw in s\<close> on strings.\<close>

fun starts_with :: "string \<Rightarrow> string \<Rightarrow> bool" where
  "starts_with s [] = True"
| "starts_with [] (k # ks) = False"
| "starts_with (x # xs) (k # ks) = (x = k \<and> starts_with xs ks)"

fun contains :: "string \<Rightarrow> string \<Rightarrow> bool" where
  "contains [] kw = (kw = [])"
| "contains (x # xs) kw = (starts_with (x # xs) kw \<or> contains xs kw)"

text \<open>\<open>s.split(d)\<close> for a separator of one character: empty fields are kept.\<close>

fun split :: "char \<Rightarrow> string \<Rightarrow> string list" where
  "split d [] = [[]]"
| "split d (x # xs) =
     (if x = d then [] # split d xs
      else (case split d xs of [] \<Rightarrow> [[x]] | f # fs \<Rightarrow> (x # f) # fs))"

text \<open>\<open>str(n)\<close> for a natural number, as the f-strings of the diagnostics print it.\<close>

fun str_nat :: "nat \<Rightarrow> string" where
  "str_nat n = (if n < 10 then [char_of (48 + n)]
                else str_nat (n div 10) @ [char_of (48 + n mod 10)])"

declare str_nat.simps [simp del]

datatype error = ValueError | TypeError | IndexError | AttributeError | OverflowError | Py4JError

text \<open>
  \<open>int(s)\<close> on a string, base 10: surrounding whitespace is stripped, one sign is
  allowed, and single underscores may separate digits. Anything else is a ValueError.
  The whitespace that \<open>int\<close> skips is narrower than that of \<open>str.strip\<close>: the
  ASCII characters tab to carriage return and the space, and the two code points 133
  and 160, which \<open>int\<close> first turns into spaces; the separators 28 to 31 are not
  skipped. The limit that recent versions of Python put on the number of digits is
  not modelled.
\<close>

definition int_isspace :: "char \<Rightarrow> bool" where
  "int_isspace c = (let n = code_point c in
     (9 \<le> n \<and> n \<le> 13) \<or> n = 32 \<or> n = 133 \<or> n = 160)"

definition digit_val :: "char \<Rightarrow> int" where
  "digit_val c = int (code_point c) - 48"

fun digits_ok :: "string \<Rightarrow> bool" where
  "digits_ok [] = False"
| "digits_ok [c] = py_isdecimal c"
| "digits_ok (c # d # ds) =
     (py_isdecimal c \<and>
      (if d = CHR ''_'' then digits_ok ds else digits_ok (d # ds)))"

definition digits_value :: "string \<Rightarrow> int" where
  "digits_value s = foldl (\<lambda>a c. 10 * a + digit_val c) 0 (filter (\<lambda>c. c \<noteq> CHR ''_'') s)"

definition py_int :: "string \<Rightarrow> error + int" where
  "py_int s =
     (let t = strip_with int_isspace s;
          (neg, body) = (case t of
                           c # r \<Rightarrow> if c = CHR ''-'' then (True, r)
                                    else if c = CHR ''+'' then (False, r) else (False, t)
                         | [] \<Rightarrow> (False, t))
      in if digits_ok body
         then Inr (if neg then - digits_value body else digits_value body)
         else Inl ValueError)"

section \<open>Regular expressions\<close>

text \<open>
  The patterns of the parser use character classes, greedy \<open>+\<close> and \<open>*\<close> on a single
  class, capturing groups, concatenation and greedy optional groups \<open>(?:...)?\<close>.
  \<open>rx_match\<close> is the backtracking matcher of \<open>re\<close>: it lists every way to match
  a prefix of the string, in the order in which backtracking tries them, each with the
  groups captured on the way and the rest of the string. \<open>Grp i\<close> is group \<open>i + 1\<close>
  of Python.
\<close>

datatype cls = Space | NonSpace | Digit | Word | AnyOf string | NoneOf string

fun in_cls :: "cls \<Rightarrow> char \<Rightarrow> bool" where
  "in_cls Space c = py_isspace c"
| "in_cls NonSpace c = (\<not> py_isspace c)"
| "in_cls Digit c = py_isdecimal c"
| "in_cls Word c = py_isword c"
| "in_cls (AnyOf cs) c = (c \<in> set cs)"
| "in_cls (NoneOf cs) c = (c \<notin> set cs)"

datatype rx = Eps | One cls | Star cls | Plus cls | Grp nat rx | Seq rx rx | Opt rx

type_synonym caps = "string option list"

text \<open>The rests of the string after a greedy \<open>c*\<close> and \<open>c+\<close>: longest match first.\<close>

fun star_rests :: "cls \<Rightarrow> string \<Rightarrow> string list" where
  "star_rests c [] = [[]]"
| "star_rests c (x # xs) = (if in_cls c x then star_rests c xs @ [x # xs] else [x # xs])"

fun plus_rests :: "cls \<Rightarrow> string \<Rightarrow> string list" where
  "plus_rests c [] = []"
| "plus_rests c (x # xs) = (if in_cls c x then star_rests c xs else [])"

primrec rx_match :: "rx \<Rightarrow> caps \<Rightarrow> string \<Rightarrow> (caps \<times> string) list" where
  "rx_match Eps cs s = [(cs, s)]"
| "rx_match (One c) cs s =
     (case s of [] \<Rightarrow> [] | x # xs \<Rightarrow> if in_cls c x then [(cs, xs)] else [])"
| "rx_match (Star c) cs s = map (Pair cs) (star_rests c s)"
| "rx_match (Plus c) cs s = map (Pair cs) (plus_rests c s)"
| "rx_match (Grp i r) cs s =
     map (\<lambda>(cs', s'). (cs'[i := Some (take (length s - length s') s)], s')) (rx_match r cs s)"
| "rx_match (Seq a b) cs s =
     concat (map (\<lambda>(cs', s'). rx_match b cs' s') (rx_match a cs s))"
| "rx_match (Opt r) cs s = rx_match r cs s @ [(cs, s)]"

primrec ngroups :: "rx \<Rightarrow> nat" where
  "ngroups Eps = 0"
| "ngroups (One c) = 0"
| "ngroups (Star c) = 0"
| "ngroups (Plus c) = 0"
| "ngroups (Grp i r) = Suc (ngroups r)"
| "ngroups (Seq a b) = ngroups a + ngroups b"
| "ngroups (Opt r) = ngroups r"

text \<open>
  \<open>pattern.match(s)\<close> followed by \<open>.groups()\<close>: the first way to match at the start of
  \<open>s\<close>, as the tuple of all groups of the pattern, \<open>None\<close> for a group that took no part.
\<close>

definition match_groups :: "rx \<Rightarrow> string \<Rightarrow> caps option" where
  "match_groups r s =
     (case rx_match r (replicate (ngroups r) None) s of
        [] \<Rightarrow> None
      | (cs, rest) # _ \<Rightarrow> Some cs)"

primrec seq :: "rx list \<Rightarrow> rx" where
  "seq [] = Eps"
| "seq (r # rs) = Seq r (seq rs)"

abbreviation Lit :: "char \<Rightarrow> rx" where
  "Lit c \<equiv> One (AnyOf [c])"

section \<open>Instants\<close>

text \<open>
  A naive \<open>datetime\<close>, to the second. The constructor \<open>datetime(y, m, d, h, mi, s)\<close>
  first reads its arguments as C integers of 32 bits and raises OverflowError on one
  that does not fit; then it raises ValueError outside the calendar.
  \<open>valid_datetime\<close> is what it accepts.
\<close>

record datetime =
  year :: int
  month :: int
  day :: int
  hour :: int
  minute :: int
  second :: int

definition is_leap :: "int \<Rightarrow> bool" where
  "is_leap y = (y mod 4 = 0 \<and> (y mod 100 \<noteq> 0 \<or> y mod 400 = 0))"

definition days_in_month :: "int \<Rightarrow> int \<Rightarrow> int" where
  "days_in_month y m =
     (if m = 2 then (if is_leap y then 29 else 28)
      else if m = 4 \<or> m = 6 \<or> m = 9 \<or> m = 11 then 30 else 31)"

definition valid_datetime :: "datetime \<Rightarrow> bool" where
  "valid_datetime t =
     (1 \<le> year t \<and> year t \<le> 9999 \<and> 1 \<le> month t \<and> month t \<le> 12 \<and>
      1 \<le> day t \<and> day t \<le> days_in_month (year t) (month t) \<and>
      0 \<le> hour t \<and> hour t \<le> 23 \<and> 0 \<le> minute t \<and> minute t \<le> 59 \<and>
      0 \<le> second t \<and> second t \<le> 59)"

definition c_int :: "int \<Rightarrow> bool" where
  "c_int n = (- 2147483648 \<le> n \<and> n \<le> 2147483647)"

definition mk_datetime :: "int \<Rightarrow> int \<Rightarrow> int \<Rightarrow> int \<Rightarrow> int \<Rightarrow> int \<Rightarrow> error + datetime" where
  "mk_datetime y m d h mi s =
     (if c_int y \<and> c_int m \<and> c_int d \<and> c_int h \<and> c_int mi \<and> c_int s
      then (let t = \<lparr>year = y, month = m, day = d, hour = h, minute = mi, second = s\<rparr>
            in if valid_datetime t then Inr t else Inl ValueError)
      else Inl OverflowError)"

section \<open>log\_parser.py\<close>

text \<open>
  The seven columns of a record are the fields of \<open>LogRow\<close>; \<open>ParsedLogEntry\<close> adds
  the raw line. The fields \<open>method\<close> and \<open>size\<close> of the source are \<open>method_name\<close> and \<open>size_bytes\<close> here.
\<close>

record LogRow =
  ip :: string
  timestamp :: "datetime option"
  method_name :: string
  path :: string
  protocol :: string
  status :: int
  size_bytes :: int

record ParsedLogEntry = LogRow +
  raw_line :: string

text \<open>The tail shared by both line patterns, from the bracketed timestamp on.\<close>

definition LINE_TAIL :: rx where
  "LINE_TAIL = seq
     [Lit CHR ''['', Grp 1 (Plus (NoneOf '']'')), Lit CHR '']'', Plus Space,
      Lit CHR 0x22, Grp 2 (Plus NonSpace), Plus Space, Grp 3 (Plus NonSpace), Star Space,
      Grp 4 (Star NonSpace), Lit CHR 0x22, Plus Space,
      Grp 5 (Plus Digit), Plus Space, Grp 6 (Plus NonSpace),
      Opt (seq [Plus Space, Lit CHR 0x22, Grp 7 (Star (NoneOf [CHR 0x22])), Lit CHR 0x22,
                Plus Space, Lit CHR 0x22, Grp 8 (Star (NoneOf [CHR 0x22])), Lit CHR 0x22]),
      Opt (seq [Plus Space, Grp 9 (Plus Digit)])]"

definition APACHE_COMBINED_REGEX :: rx where
  "APACHE_COMBINED_REGEX =
     Seq (Grp 0 (Plus NonSpace)) (Seq (Plus Space) (Seq (Plus NonSpace) (Seq (Plus Space)
       (Seq (Plus NonSpace) (Seq (Plus Space) LINE_TAIL)))))"

definition NGINX_REGEX :: rx where
  "NGINX_REGEX =
     Seq (Grp 0 (Plus NonSpace)) (Seq (Plus Space) (Seq (Lit CHR ''-'') (Seq (Plus Space)
       (Seq (Lit CHR ''-'') (Seq (Plus Space) LINE_TAIL)))))"

definition TIMESTAMP_REGEX :: rx where
  "TIMESTAMP_REGEX = seq
     [Grp 0 (Plus Digit), Lit CHR ''/'', Grp 1 (Plus Word), Lit CHR ''/'',
      Grp 2 (Plus Digit), Lit CHR '':'', Grp 3 (Plus Digit), Lit CHR '':'',
      Grp 4 (Plus Digit), Lit CHR '':'', Grp 5 (Plus Digit), Star Space,
      Opt (Grp 6 (Seq (One (AnyOf ''+-'')) (Plus Digit)))]"

definition MONTH_MAP :: "string \<rightharpoonup> int" where
  "MONTH_MAP = [''Jan'' \<mapsto> 1, ''Feb'' \<mapsto> 2, ''Mar'' \<mapsto> 3, ''Apr'' \<mapsto> 4, ''May'' \<mapsto> 5,
     ''Jun'' \<mapsto> 6, ''Jul'' \<mapsto> 7, ''Aug'' \<mapsto> 8, ''Sep'' \<mapsto> 9, ''Oct'' \<mapsto> 10, ''Nov'' \<mapsto> 11,
     ''Dec'' \<mapsto> 12]"

definition CSV_HEADER_KEYWORDS :: "string list" where
  "CSV_HEADER_KEYWORDS = [''ip'', ''address'', ''timestamp'', ''date'', ''method'', ''url'',
     ''path'', ''status'', ''size'', ''bytes'']"

text \<open>
  \<open>a, b, c, d, e, f, g = t\<close>: unpacking into seven names raises ValueError unless the
  tuple has exactly seven components.
\<close>

fun unpack7 :: "'a list \<Rightarrow> error + ('a \<times> 'a \<times> 'a \<times> 'a \<times> 'a \<times> 'a \<times> 'a)" where
  "unpack7 [a, b, c, d, e, f, g] = Inr (a, b, c, d, e, f, g)"
| "unpack7 xs = Inl ValueError"

text \<open>\<open>int(g)\<close> on a group: TypeError on \<open>None\<close>.\<close>

definition int_of_group :: "string option \<Rightarrow> error + int" where
  "int_of_group g = (case g of None \<Rightarrow> Inl TypeError | Some s \<Rightarrow> py_int s)"

text \<open>
  The body of the \<open>try\<close> of \<open>parse_apache_timestamp\<close>, with its exceptions as values,
  and the function itself, which turns ValueError and TypeError into \<open>None\<close> and lets
  any other exception through (the OverflowError of a component beyond a C integer).
\<close>

definition apache_timestamp_try :: "string \<Rightarrow> error + datetime option" where
  "apache_timestamp_try timestamp_str =
     (case match_groups TIMESTAMP_REGEX timestamp_str of
        None \<Rightarrow> Inr None
      | Some gs \<Rightarrow>
          (case unpack7 gs of
             Inl e \<Rightarrow> Inl e
           | Inr (d, mon, y, h, mi, s, tz) \<Rightarrow>
               (let month_num = (case mon of None \<Rightarrow> 1
                                 | Some m \<Rightarrow> (case MONTH_MAP m of None \<Rightarrow> 1 | Some k \<Rightarrow> k))
                in case int_of_group y of Inl e \<Rightarrow> Inl e | Inr yi \<Rightarrow>
                   case int_of_group d of Inl e \<Rightarrow> Inl e | Inr di \<Rightarrow>
                   case int_of_group h of Inl e \<Rightarrow> Inl e | Inr hi \<Rightarrow>
                   case int_of_group mi of Inl e \<Rightarrow> Inl e | Inr mii \<Rightarrow>
                   case int_of_group s of Inl e \<Rightarrow> Inl e | Inr si \<Rightarrow>
                   case mk_datetime yi month_num di hi mii si of
                     Inl e \<Rightarrow> Inl e
                   | Inr t \<Rightarrow> Inr (Some t))))"

definition parse_apache_timestamp :: "string \<Rightarrow> error + datetime option" where
  "parse_apache_timestamp timestamp_str =
     (case apache_timestamp_try timestamp_str of
        Inl ValueError \<Rightarrow> Inr None
      | Inl TypeError \<Rightarrow> Inr None
      | Inl e \<Rightarrow> Inl e
      | Inr r \<Rightarrow> Inr r)"

text \<open>
  Lines 70 to 86 of \<open>parse_log_line\<close>: the record built from the seven names bound by
  the unpacking. \<open>int(size)\<close> and \<open>int(status)\<close> are not inside a \<open>try\<close>.
\<close>

definition entry_of_groups ::
  "string \<Rightarrow> string \<Rightarrow> string \<Rightarrow> string \<Rightarrow> string \<Rightarrow> string \<Rightarrow> string \<Rightarrow> string
     \<Rightarrow> error + ParsedLogEntry option" where
  "entry_of_groups ip_s timestamp_str method_s path_s protocol_s status_s size_s line =
     (case (if size_s = ''-'' then Inr 0 else if isdigit size_s then py_int size_s else Inr 0) of
        Inl e \<Rightarrow> Inl e
      | Inr parsed_size \<Rightarrow>
          if size_s = ''-'' then Inr None
          else
            (case parse_apache_timestamp timestamp_str of
               Inl e \<Rightarrow> Inl e
             | Inr ts \<Rightarrow>
                 (case (if isdigit status_s then py_int status_s else Inr 0) of
                    Inl e \<Rightarrow> Inl e
                  | Inr st \<Rightarrow>
                      Inr (Some \<lparr>ip = ip_s, timestamp = ts,
                                 method_name = (if method_s = [] then ''GET'' else method_s),
                                 path = (if path_s = [] then ''/'' else path_s),
                                 protocol = (if protocol_s = [] then ''HTTP/1.1'' else protocol_s),
                                 status = st, size_bytes = parsed_size, raw_line = line\<rparr>))))"

text \<open>
  The loop over the patterns. On the first pattern that matches, \<open>match.groups()\<close> is
  unpacked into seven names. Groups 1 to 7 of both patterns lie outside the optional
  parts, so a match sets each of them; reading an unset one as a string is given as
  AttributeError.
\<close>

fun try_patterns :: "rx list \<Rightarrow> string \<Rightarrow> error + ParsedLogEntry option" where
  "try_patterns [] line = Inr None"
| "try_patterns (pattern # rest) line =
     (case match_groups pattern line of
        None \<Rightarrow> try_patterns rest line
      | Some gs \<Rightarrow>
          (case unpack7 gs of
             Inl e \<Rightarrow> Inl e
           | Inr (Some ip_s, Some timestamp_str, Some method_s, Some path_s, Some protocol_s,
                  Some status_s, Some size_s) \<Rightarrow>
               entry_of_groups ip_s timestamp_str method_s path_s protocol_s status_s size_s line
           | Inr _ \<Rightarrow> Inl AttributeError))"

definition parse_log_line_with :: "rx list \<Rightarrow> string \<Rightarrow> error + ParsedLogEntry option" where
  "parse_log_line_with patterns line0 =
     (let line = strip line0
      in if line = [] then Inr None else try_patterns patterns line)"

definition parse_log_line :: "string \<Rightarrow> error + ParsedLogEntry option" where
  "parse_log_line = parse_log_line_with [APACHE_COMBINED_REGEX, NGINX_REGEX]"

definition detect_csv_format :: "string \<Rightarrow> bool" where
  "detect_csv_format first_line =
     (list_ex (\<lambda>keyword. contains (lower first_line) keyword) CSV_HEADER_KEYWORDS
      \<or> CHR '','' \<in> set first_line)"

text \<open>\<open>values[i]\<close> for an index that is not negative.\<close>

definition item :: "'a list \<Rightarrow> nat \<Rightarrow> error + 'a" where
  "item xs i = (if i < length xs then Inr (xs ! i) else Inl IndexError)"

definition replace_Z :: "string \<Rightarrow> string" where
  "replace_Z s = concat (map (\<lambda>c. if c = CHR ''Z'' then ''+00:00'' else [c]) s)"

text \<open>
  \<open>parse_csv_line\<close>. \<open>fromisoformat\<close> stands for \<open>datetime.fromisoformat\<close> of the
  standard library, \<open>None\<close> where it raises ValueError. The field map holds the indices
  of \<open>enumerate\<close>, which are never negative, so \<open>field_map.get(k, -1) >= 0\<close> is
  that \<open>k\<close> is a key. The body of the \<open>try\<close> is \<open>csv_line_try\<close>, its parts in the
  order of the source: the string fields, the timestamp, the status and the size.
\<close>

definition csv_field :: "string list \<Rightarrow> (string \<rightharpoonup> nat) \<Rightarrow> string \<Rightarrow> string \<Rightarrow> error + string" where
  "csv_field vals field_map key dflt =
     (case field_map key of Some i \<Rightarrow> item vals i | None \<Rightarrow> Inr dflt)"

definition csv_timestamp ::
  "(string \<Rightarrow> datetime option) \<Rightarrow> string list \<Rightarrow> (string \<rightharpoonup> nat)
     \<Rightarrow> error + datetime option" where
  "csv_timestamp fromisoformat vals field_map =
     (case field_map ''timestamp'' of
        None \<Rightarrow> Inr None
      | Some i \<Rightarrow>
          (case item vals i of
             Inl e \<Rightarrow> Inl e
           | Inr ts_str \<Rightarrow>
               (case fromisoformat (replace_Z ts_str) of
                  Some t \<Rightarrow> Inr (Some t)
                | None \<Rightarrow> parse_apache_timestamp ts_str)))"

definition csv_status :: "string list \<Rightarrow> (string \<rightharpoonup> nat) \<Rightarrow> error + int" where
  "csv_status vals field_map =
     (case field_map ''status'' of
        None \<Rightarrow> Inr 0
      | Some i \<Rightarrow>
          (case item vals i of
             Inl e \<Rightarrow> Inl e
           | Inr status_str \<Rightarrow> if isdigit status_str then py_int status_str else Inr 0))"

text \<open>The size of a row; \<open>Inr None\<close> is the early \<open>return None\<close> of line 124.\<close>

definition csv_size :: "string list \<Rightarrow> (string \<rightharpoonup> nat) \<Rightarrow> error + int option" where
  "csv_size vals field_map =
     (case field_map ''size'' of
        None \<Rightarrow> Inr (Some 0)
      | Some i \<Rightarrow>
          (case item vals i of
             Inl e \<Rightarrow> Inl e
           | Inr size_str \<Rightarrow>
               if size_str \<noteq> [] \<and> size_str \<noteq> ''-''
               then (if isdigit size_str
                     then (case py_int size_str of Inl e \<Rightarrow> Inl e | Inr n \<Rightarrow> Inr (Some n))
                     else Inr (Some 0))
               else Inr None))"

definition csv_line_try ::
  "(string \<Rightarrow> datetime option) \<Rightarrow> string list \<Rightarrow> (string \<rightharpoonup> nat) \<Rightarrow> string
     \<Rightarrow> error + ParsedLogEntry option" where
  "csv_line_try fromisoformat vals field_map line =
     (case csv_field vals field_map ''ip'' ''unknown'' of
        Inl e \<Rightarrow> Inl e
      | Inr ip_s \<Rightarrow>
     (case csv_timestamp fromisoformat vals field_map of
        Inl e \<Rightarrow> Inl e
      | Inr ts \<Rightarrow>
     (case csv_field vals field_map ''method'' ''GET'' of
        Inl e \<Rightarrow> Inl e
      | Inr method_s \<Rightarrow>
     (case csv_field vals field_map ''path'' ''/'' of
        Inl e \<Rightarrow> Inl e
      | Inr path_s \<Rightarrow>
     (case csv_status vals field_map of
        Inl e \<Rightarrow> Inl e
      | Inr st \<Rightarrow>
     (case csv_size vals field_map of
        Inl e \<Rightarrow> Inl e
      | Inr None \<Rightarrow> Inr None
      | Inr (Some sz) \<Rightarrow>
          if ip_s = ''unknown'' \<and> path_s = ''/'' \<and> st = 0 then Inr None
          else Inr (Some \<lparr>ip = ip_s, timestamp = ts, method_name = method_s, path = path_s,
                           protocol = ''HTTP/1.1'', status = st, size_bytes = sz,
                           raw_line = line\<rparr>)))))))"

definition parse_csv_line ::
  "(string \<Rightarrow> datetime option) \<Rightarrow> string list \<Rightarrow> (string \<rightharpoonup> nat) \<Rightarrow> string
     \<Rightarrow> error + ParsedLogEntry option" where
  "parse_csv_line fromisoformat vals field_map line =
     (case csv_line_try fromisoformat vals field_map line of
        Inl IndexError \<Rightarrow> Inr None
      | Inl ValueError \<Rightarrow> Inr None
      | Inl e \<Rightarrow> Inl e
      | Inr r \<Rightarrow> Inr r)"

definition QUOTES :: string where
  "QUOTES = [CHR 0x22, CHR 0x27]"

text \<open>The body of the loop of \<open>detect_csv_fields\<close>, and the loop with its index.\<close>

definition detect_step :: "nat \<Rightarrow> string \<Rightarrow> (string \<rightharpoonup> nat) \<Rightarrow> (string \<rightharpoonup> nat)" where
  "detect_step i header field_map =
     (let h = strip_chars QUOTES (strip (lower header))
      in if contains h ''ip'' \<or> contains h ''address'' \<or> contains h ''client''
           then field_map(''ip'' \<mapsto> i)
         else if contains h ''time'' \<or> contains h ''date''
           then field_map(''timestamp'' \<mapsto> i)
         else if contains h ''method'' \<or> contains h ''verb''
           then field_map(''method'' \<mapsto> i)
         else if contains h ''path'' \<or> contains h ''url'' \<or> contains h ''uri''
                 \<or> contains h ''request''
           then field_map(''path'' \<mapsto> i)
         else if contains h ''status'' \<or> contains h ''code'' \<or> contains h ''response''
           then field_map(''status'' \<mapsto> i)
         else if contains h ''size'' \<or> contains h ''bytes'' \<or> contains h ''length''
           then field_map(''size'' \<mapsto> i)
         else field_map)"

fun detect_loop :: "nat \<Rightarrow> string list \<Rightarrow> (string \<rightharpoonup> nat) \<Rightarrow> (string \<rightharpoonup> nat)" where
  "detect_loop i [] field_map = field_map"
| "detect_loop i (header # headers) field_map =
     detect_loop (Suc i) headers (detect_step i header field_map)"

definition detect_csv_fields :: "string list \<Rightarrow> (string \<rightharpoonup> nat)" where
  "detect_csv_fields headers = detect_loop 0 headers Map.empty"

definition unable_to_parse :: "nat \<Rightarrow> string \<Rightarrow> string" where
  "unable_to_parse i line =
     ''Line '' @ str_nat i @ '': Unable to parse - '' @ [CHR 0x22] @ take 60 line @ ''...''
       @ [CHR 0x22]"

definition NO_FIELDS :: string where
  "NO_FIELDS = ''CSV does not contain recognizable log fields (ip, path, status, etc.)''"

text \<open>The loop over the data rows of \<open>parse_csv_file\<close>; \<open>i\<close> is the row's number.\<close>

fun csv_rows ::
  "(string \<Rightarrow> datetime option) \<Rightarrow> char \<Rightarrow> (string \<rightharpoonup> nat) \<Rightarrow> nat \<Rightarrow> string list
     \<Rightarrow> ParsedLogEntry list \<Rightarrow> string list \<Rightarrow> error + ParsedLogEntry list \<times> string list" where
  "csv_rows fromisoformat delimiter field_map i [] entries errors = Inr (entries, errors)"
| "csv_rows fromisoformat delimiter field_map i (line0 # rest) entries errors =
     (let line = strip line0
      in if line = [] then csv_rows fromisoformat delimiter field_map (Suc i) rest entries errors
         else
           (let vals = map (\<lambda>v. strip_chars QUOTES (strip v)) (split delimiter line)
            in case parse_csv_line fromisoformat vals field_map line of
                 Inl e \<Rightarrow> Inl e
               | Inr (Some entry) \<Rightarrow>
                   csv_rows fromisoformat delimiter field_map (Suc i) rest
                     (entries @ [entry]) errors
               | Inr None \<Rightarrow>
                   csv_rows fromisoformat delimiter field_map (Suc i) rest
                     entries (errors @ [unable_to_parse i line])))"

text \<open>The delimiter and the field map that \<open>parse_csv_file\<close> reads off the first line.\<close>

definition csv_delimiter :: "string \<Rightarrow> char" where
  "csv_delimiter first_line = (if CHR 0x09 \<in> set first_line then CHR 0x09 else CHR '','')"

definition csv_field_map :: "string \<Rightarrow> (string \<rightharpoonup> nat)" where
  "csv_field_map first_line =
     detect_csv_fields (map strip (split (csv_delimiter first_line) first_line))"

definition parse_csv_file ::
  "(string \<Rightarrow> datetime option) \<Rightarrow> string list
     \<Rightarrow> error + ParsedLogEntry list \<times> string list" where
  "parse_csv_file fromisoformat lines =
     (case lines of
        [] \<Rightarrow> Inr ([], [''Empty file''])
      | first_line # data \<Rightarrow>
          (let delimiter = csv_delimiter first_line;
               field_map = csv_field_map first_line
           in if field_map ''ip'' = None \<and> field_map ''path'' = None
              then Inr ([], [NO_FIELDS])
              else csv_rows fromisoformat delimiter field_map 2 data [] []))"

text \<open>The loop over the lines of a line-oriented file; \<open>i\<close> is the line's number.\<close>

fun log_lines ::
  "nat \<Rightarrow> string list \<Rightarrow> ParsedLogEntry list \<Rightarrow> string list
     \<Rightarrow> error + ParsedLogEntry list \<times> string list" where
  "log_lines i [] entries errors = Inr (entries, errors)"
| "log_lines i (line # rest) entries errors =
     (case parse_log_line line of
        Inl e \<Rightarrow> Inl e
      | Inr (Some entry) \<Rightarrow> log_lines (Suc i) rest (entries @ [entry]) errors
      | Inr None \<Rightarrow> log_lines (Suc i) rest entries (errors @ [unable_to_parse i line]))"

definition nonblank_lines :: "string \<Rightarrow> string list" where
  "nonblank_lines content = filter (\<lambda>line. strip line \<noteq> []) (split CHR 0x0A content)"

definition parse_log_file ::
  "(string \<Rightarrow> datetime option) \<Rightarrow> string
     \<Rightarrow> error + ParsedLogEntry list \<times> string list" where
  "parse_log_file fromisoformat content =
     (case nonblank_lines content of
        [] \<Rightarrow> Inr ([], [''Empty file''])
      | first_line # rest \<Rightarrow>
          if detect_csv_format first_line
          then parse_csv_file fromisoformat (first_line # rest)
          else log_lines 1 (first_line # rest) [] [])"

text \<open>
  The roles of the header keywords as the specification lists them, in their order of
  precedence: a header takes the first role one of whose keywords occurs in it.
\<close>

definition ROLE_KEYWORDS :: "(string \<times> string list) list" where
  "ROLE_KEYWORDS =
     [(''ip'', [''ip'', ''address'', ''client'']),
      (''timestamp'', [''time'', ''date'']),
      (''method'', [''method'', ''verb'']),
      (''path'', [''path'', ''url'', ''uri'', ''request'']),
      (''status'', [''status'', ''code'', ''response'']),
      (''size'', [''size'', ''bytes'', ''length''])]"

definition header_role :: "string \<Rightarrow> string option" where
  "header_role header =
     (let h = strip_chars QUOTES (strip (lower header))
      in map_option fst (find (\<lambda>(role, keywords). list_ex (contains h) keywords) ROLE_KEYWORDS))"

section \<open>spark\_analyzer.py\<close>

text \<open>
  A DataFrame with the schema \<open>LOG_SCHEMA\<close> is the list of its rows; \<open>df.filter(c)\<close>
  keeps the rows on which \<open>c\<close> is true, and a comparison with a null timestamp is not.
  The values of the filter dictionary come from a JSON request body and are of any
  type (\<open>Dict[str, Any]\<close>); \<open>pyval\<close> gives the kinds of value that the bounds
  can hold (floats are left out). A missing key reads as \<open>PNone\<close>, as \<open>.get\<close> does.
\<close>

datatype pyval = PNone | PBool bool | PInt int | PStr string | PList "pyval list"

fun truthy :: "pyval \<Rightarrow> bool" where
  "truthy PNone = False"
| "truthy (PBool b) = b"
| "truthy (PInt n) = (n \<noteq> 0)"
| "truthy (PStr s) = (s \<noteq> [])"
| "truthy (PList xs) = (xs \<noteq> [])"

text \<open>\<open>datetime.fromisoformat(v)\<close>: TypeError unless \<open>v\<close> is a string.\<close>

fun fromisoformat_val :: "(string \<Rightarrow> datetime option) \<Rightarrow> pyval \<Rightarrow> error + datetime" where
  "fromisoformat_val fromisoformat (PStr s) =
     (case fromisoformat s of None \<Rightarrow> Inl ValueError | Some t \<Rightarrow> Inr t)"
| "fromisoformat_val fromisoformat v = Inl TypeError"

text \<open>\<open>int(v)\<close>.\<close>

fun int_val :: "pyval \<Rightarrow> error + int" where
  "int_val (PInt n) = Inr n"
| "int_val (PBool b) = Inr (if b then 1 else 0)"
| "int_val (PStr s) = py_int s"
| "int_val v = Inl TypeError"

record FilterSpec =
  dateRange_start :: pyval
  dateRange_end :: pyval
  ipAddress :: string
  urlPattern :: string
  statusCodes :: "int list"
  httpMethods :: "string list"
  sizeRange_min :: pyval
  sizeRange_max :: pyval

fun lex_le :: "int list \<Rightarrow> int list \<Rightarrow> bool" where
  "lex_le [] ys = True"
| "lex_le (x # xs) [] = False"
| "lex_le (x # xs) (y # ys) = (x < y \<or> (x = y \<and> lex_le xs ys))"

definition dt_fields :: "datetime \<Rightarrow> int list" where
  "dt_fields t = [year t, month t, day t, hour t, minute t, second t]"

definition dt_le :: "datetime \<Rightarrow> datetime \<Rightarrow> bool" where
  "dt_le a b = lex_le (dt_fields a) (dt_fields b)"

text \<open>The condition built for one listed status code (lines 119 to 126).\<close>

definition status_condition :: "int \<Rightarrow> int \<Rightarrow> bool" where
  "status_condition code st =
     (if code \<in> set [200, 300, 400, 500] then code \<le> st \<and> st < code + 100 else st = code)"

text \<open>
  \<open>combined\<close> of lines 128 to 131: the first condition, or-ed with the others in
  turn; \<open>None\<close> when there is no condition.
\<close>

definition combined_condition :: "int list \<Rightarrow> (int \<Rightarrow> bool) option" where
  "combined_condition status_codes =
     (case map status_condition status_codes of
        [] \<Rightarrow> None
      | c # cs \<Rightarrow> Some (foldl (\<lambda>combined cond. \<lambda>st. combined st \<or> cond st) c cs))"

text \<open>
  The four clauses with a bound: the bound is read only when it is truthy, and only
  a ValueError of its conversion is caught. The size bound goes to the column
  comparison as a Java integer: one outside the range of a \<open>long\<close> is refused there
  with a Py4JError.
\<close>

definition java_long :: "int \<Rightarrow> bool" where
  "java_long n = (- 9223372036854775808 \<le> n \<and> n \<le> 9223372036854775807)"

definition date_clause ::
  "(string \<Rightarrow> datetime option) \<Rightarrow> pyval \<Rightarrow> (datetime \<Rightarrow> datetime \<Rightarrow> bool)
     \<Rightarrow> LogRow list \<Rightarrow> error + LogRow list" where
  "date_clause fromisoformat bound cmp df =
     (if truthy bound
      then (case fromisoformat_val fromisoformat bound of
              Inr dt \<Rightarrow>
                Inr (filter (\<lambda>r. case timestamp r of None \<Rightarrow> False | Some t \<Rightarrow> cmp t dt) df)
            | Inl ValueError \<Rightarrow> Inr df
            | Inl e \<Rightarrow> Inl e)
      else Inr df)"

definition size_clause ::
  "pyval \<Rightarrow> (int \<Rightarrow> int \<Rightarrow> bool) \<Rightarrow> LogRow list \<Rightarrow> error + LogRow list" where
  "size_clause bound cmp df =
     (if truthy bound
      then (case int_val bound of
              Inr n \<Rightarrow>
                if java_long n then Inr (filter (\<lambda>r. cmp (size_bytes r) n) df)
                else Inl Py4JError
            | Inl ValueError \<Rightarrow> Inr df
            | Inl e \<Rightarrow> Inl e)
      else Inr df)"

text \<open>The status codes clause: skipped when the list is empty.\<close>

definition status_clause :: "int list \<Rightarrow> LogRow list \<Rightarrow> LogRow list" where
  "status_clause status_codes df =
     (if status_codes \<noteq> []
      then (case combined_condition status_codes of
              None \<Rightarrow> df
            | Some combined \<Rightarrow> filter (\<lambda>r. combined (status r)) df)
      else df)"

text \<open>The clauses between the date range and the size range, none of which raises.\<close>

definition middle_clauses :: "FilterSpec \<Rightarrow> LogRow list \<Rightarrow> LogRow list" where
  "middle_clauses filters df0 =
     (let df1 = (if ipAddress filters \<noteq> []
                 then filter (\<lambda>r. contains (ip r) (ipAddress filters)) df0 else df0);
          df2 = (if urlPattern filters \<noteq> []
                 then filter (\<lambda>r. contains (path r) (urlPattern filters)) df1 else df1);
          df3 = status_clause (statusCodes filters) df2;
          df4 = (if httpMethods filters \<noteq> []
                 then filter (\<lambda>r. method_name r \<in> set (httpMethods filters)) df3 else df3)
      in df4)"

text \<open>
  \<open>apply_filters\<close>. The early return on an empty dictionary is the case in which
  every clause below is skipped.
\<close>

definition apply_filters ::
  "(string \<Rightarrow> datetime option) \<Rightarrow> LogRow list \<Rightarrow> FilterSpec \<Rightarrow> error + LogRow list" where
  "apply_filters fromisoformat df filters =
     (case date_clause fromisoformat (dateRange_start filters) (\<lambda>t dt. dt_le dt t) df of
        Inl e \<Rightarrow> Inl e
      | Inr df1 \<Rightarrow>
     (case date_clause fromisoformat (dateRange_end filters) (\<lambda>t dt. dt_le t dt) df1 of
        Inl e \<Rightarrow> Inl e
      | Inr df2 \<Rightarrow>
     (case size_clause (sizeRange_min filters) (\<lambda>sz n. n \<le> sz) (middle_clauses filters df2) of
        Inl e \<Rightarrow> Inl e
      | Inr df3 \<Rightarrow> size_clause (sizeRange_max filters) (\<lambda>sz n. sz \<le> n) df3)))"

text \<open>
  \<open>hourly_traffic_counter\<close>: the hours of the rows with a timestamp, grouped, counted
  and ordered by hour, then read through a dictionary for the 24 hours of the day.
\<close>

definition row_hours :: "LogRow list \<Rightarrow> int list" where
  "row_hours df = map (\<lambda>r. hour (the (timestamp r))) (filter (\<lambda>r. timestamp r \<noteq> None) df)"

definition group_count :: "int list \<Rightarrow> (int \<times> nat) list" where
  "group_count hs = map (\<lambda>h. (h, count_list hs h)) (sort (remdups hs))"

definition hourly_traffic_counter :: "LogRow list \<Rightarrow> (int \<times> nat) list" where
  "hourly_traffic_counter df =
     (let hourly = group_count (row_hours df);
          hour_counts = map_of hourly
      in map (\<lambda>h. (h, case hour_counts h of None \<Rightarrow> 0 | Some c \<Rightarrow> c)) [0..23])"

text \<open>
  Two notions for comparing patterns: \<open>rejects c r\<close> says that \<open>r\<close> matches no
  string that starts with a character of the class \<open>c\<close>; \<open>covers a n\<close> says that
  wherever \<open>n\<close> matches, \<open>a\<close> matches in the same ways and in the same order.
\<close>

definition rejects :: "cls \<Rightarrow> rx \<Rightarrow> bool" where
  "rejects c r = (\<forall>cs x xs. in_cls c x \<longrightarrow> rx_match r cs (x # xs) = [])"

definition covers :: "rx \<Rightarrow> rx \<Rightarrow> bool" where
  "covers a n = (\<forall>cs s. rx_match n cs s \<noteq> [] \<longrightarrow> rx_match a cs s = rx_match n cs s)"

text \<open>The entries of a list all have a size and a status that are not negative.\<close>

definition nonneg_entries :: "ParsedLogEntry list \<Rightarrow> bool" where
  "nonneg_entries es = list_all (\<lambda>e. 0 \<le> size_bytes e \<and> 0 \<le> status e) es"

text \<open>
  The example inputs: a combined log line with a given size token, the groups that the
  line patterns capture on it, the record of its fields, and a small delimited file.
\<close>

abbreviation combined_line :: "string \<Rightarrow> string" where
  "combined_line size_token \<equiv>
     ''10.0.0.1 - - [10/Oct/2020:13:55:36 +0000] '' @ [CHR 0x22] @ ''GET /index.html HTTP/1.1''
       @ [CHR 0x22] @ '' 200 '' @ size_token"

abbreviation combined_groups :: "string \<Rightarrow> caps" where
  "combined_groups size_token \<equiv>
     [Some ''10.0.0.1'', Some ''10/Oct/2020:13:55:36 +0000'', Some ''GET'',
      Some ''/index.html'', Some ''HTTP/1.1'', Some ''200'', Some size_token, None, None, None]"

abbreviation csv_example :: string where
  "csv_example \<equiv> ''ip,path,status,bytes'' @ [CHR 0x0A] @ ''1.2.3.4,/a,200,500''"

abbreviation csv_example_entry :: ParsedLogEntry where
  "csv_example_entry \<equiv>
     \<lparr>ip = ''1.2.3.4'', timestamp = None, method_name = ''GET'', path = ''/a'',
      protocol = ''HTTP/1.1'', status = 200, size_bytes = 500,
      raw_line = ''1.2.3.4,/a,200,500''\<rparr>"

abbreviation combined_entry :: "int \<Rightarrow> string \<Rightarrow> ParsedLogEntry" where
  "combined_entry sz line \<equiv>
     \<lparr>ip = ''10.0.0.1'',
      timestamp = Some \<lparr>year = 2020, month = 10, day = 10, hour = 13, minute = 55, second = 36\<rparr>,
      method_name = ''GET'', path = ''/index.html'', protocol = ''HTTP/1.1'',
      status = 200, size_bytes = sz, raw_line = line\<rparr>"

text \<open>A header row in which two columns take the role \<open>ip\<close>.\<close>

abbreviation example_headers :: "string list" where
  "example_headers \<equiv> [''IP'', ''client_ip'', ''request_time'', ''x'']"

text \<open>A row with a given status, for the examples.\<close>

abbreviation row_with_status :: "int \<Rightarrow> LogRow" where
  "row_with_status st \<equiv>
     \<lparr>ip = ''10.0.0.1'', timestamp = None, method_name = ''GET'', path = ''/'',
      protocol = ''HTTP/1.1'', status = st, size_bytes = 0\<rparr>"

text \<open>A row with a timestamp at a given hour, and the filter with no clause.\<close>

abbreviation row_at_hour :: "int \<Rightarrow> LogRow" where
  "row_at_hour h \<equiv>
     \<lparr>ip = ''10.0.0.1'',
      timestamp = Some \<lparr>year = 2020, month = 10, day = 10, hour = h, minute = 55, second = 36\<rparr>,
      method_name = ''GET'', path = ''/'', protocol = ''HTTP/1.1'', status = 200,
      size_bytes = 0\<rparr>"

abbreviation no_filters :: FilterSpec where
  "no_filters \<equiv>
     \<lparr>dateRange_start = PNone, dateRange_end = PNone, ipAddress = [], urlPattern = [],
      statusCodes = [], httpMethods = [], sizeRange_min = PNone, sizeRange_max = PNone\<rparr>"

section \<open>The status codes filter\<close>





section \<open>Delimited files without an address and a path column\<close>

text \<open>
  C6. When the field map read off the header of a delimited file has neither the role
  \<open>ip\<close> nor the role \<open>path\<close>, \<open>parse_csv_file\<close> returns no record and the single
  diagnostic \<open>NO_FIELDS\<close>, whatever the data rows are; so does \<open>parse_log_file\<close> on a
  content whose first non-blank line is such a header and is detected as delimited.
\<close>

theorem csv_without_ip_and_path:
  assumes "csv_field_map first_line ''ip'' = None"
    and "csv_field_map first_line ''path'' = None"
  shows "parse_csv_file fromisoformat (first_line # data) = Inr ([], [NO_FIELDS]) \<and>
         (detect_csv_format first_line \<and> nonblank_lines content = first_line # data \<longrightarrow>
            parse_log_file fromisoformat content = Inr ([], [NO_FIELDS]))"
  using assms by (simp add: parse_csv_file_def parse_log_file_def)

theorem csv_without_ip_and_path_witness:
  "csv_field_map ''foo,bar'' ''ip'' = None \<and> csv_field_map ''foo,bar'' ''path'' = None \<and>
   detect_csv_format ''foo,bar'' \<and>
   nonblank_lines (''foo,bar'' @ [CHR 0x0A] @ ''1.2.3.4,/a,200,500'')
     = [''foo,bar'', ''1.2.3.4,/a,200,500''] \<and>
   parse_csv_file (\<lambda>s. None) [''foo,bar'', ''1.2.3.4,/a,200,500''] = Inr ([], [NO_FIELDS]) \<and>
   parse_log_file (\<lambda>s. None) (''foo,bar'' @ [CHR 0x0A] @ ''1.2.3.4,/a,200,500'')
     = Inr ([], [NO_FIELDS])"
proof -
  have h1: "csv_field_map ''foo,bar'' ''ip'' = None" by code_simp
  have h2: "csv_field_map ''foo,bar'' ''path'' = None" by code_simp
  have d: "detect_csv_format ''foo,bar''" by code_simp
  have n: "nonblank_lines (''foo,bar'' @ [CHR 0x0A] @ ''1.2.3.4,/a,200,500'')
             = [''foo,bar'', ''1.2.3.4,/a,200,500'']" by code_simp
  from csv_without_ip_and_path [OF h1 h2, of "\<lambda>s. None" "[''1.2.3.4,/a,200,500'']"
      "''foo,bar'' @ [CHR 0x0A] @ ''1.2.3.4,/a,200,500''"]
  show ?thesis using h1 h2 d n by simp
qed

section \<open>The second line pattern\<close>

text \<open>
  A greedy run of a class followed by a pattern that rejects that class has one way to
  match: the whole run. So the head of both line patterns is read in one way only.
\<close>

lemma star_rests_skip:
  assumes "rejects c r"
  shows "concat (map (\<lambda>s'. rx_match r (F s') s') (star_rests c s))
           = rx_match r (F (dropWhile (in_cls c) s)) (dropWhile (in_cls c) s)"
  using assms by (induction s) (auto simp: rejects_def)

lemma seq_plus:
  assumes "rejects c r"
  shows "rx_match (Seq (Plus c) r) cs s =
           (case s of [] \<Rightarrow> []
            | x # xs \<Rightarrow> if in_cls c x then rx_match r cs (dropWhile (in_cls c) xs) else [])"
proof (cases s)
  case Nil
  then show ?thesis by simp
next
  case (Cons x xs)
  show ?thesis
    using star_rests_skip [OF assms, of "\<lambda>s'. cs" xs]
    by (simp add: Cons comp_def)
qed

lemma seq_grp_plus:
  assumes "rejects c r"
  shows "rx_match (Seq (Grp i (Plus c)) r) cs s =
           (case s of [] \<Rightarrow> []
            | x # xs \<Rightarrow>
                if in_cls c x
                then rx_match r (cs[i := Some (x # takeWhile (in_cls c) xs)])
                       (dropWhile (in_cls c) xs)
                else [])"
proof (cases s)
  case Nil
  then show ?thesis by simp
next
  case (Cons x xs)
  have len: "length xs - length (dropWhile (in_cls c) xs) = length (takeWhile (in_cls c) xs)"
    by (metis add_diff_cancel_right' length_append takeWhile_dropWhile_id)
  have tk: "take (Suc (length xs) - length (dropWhile (in_cls c) xs)) (x # xs)
              = x # takeWhile (in_cls c) xs"
  proof -
    have "length (dropWhile (in_cls c) xs) \<le> length xs" by (simp add: length_dropWhile_le)
    then have "Suc (length xs) - length (dropWhile (in_cls c) xs)
                 = Suc (length (takeWhile (in_cls c) xs))"
      using len by simp
    then show ?thesis
      by (simp add: takeWhile_eq_take [symmetric])
  qed
  show ?thesis
    using star_rests_skip [OF assms,
        of "\<lambda>s'. cs[i := Some (take (length (x # xs) - length s') (x # xs))]" xs]
    by (simp add: Cons comp_def tk)
qed


lemma rejects_seq_plus: "\<forall>x. in_cls c x \<longrightarrow> \<not> in_cls d x \<Longrightarrow> rejects c (Seq (Plus d) r)"
  by (simp add: rejects_def)

lemma rejects_seq_one: "\<forall>x. in_cls c x \<longrightarrow> \<not> in_cls d x \<Longrightarrow> rejects c (Seq (One d) r)"
  by (simp add: rejects_def)

lemma rejects_seq_grp_plus:
  "\<forall>x. in_cls c x \<longrightarrow> \<not> in_cls d x \<Longrightarrow> rejects c (Seq (Grp i (Plus d)) r)"
  by (simp add: rejects_def)

lemma space_not_dash: "\<not> py_isspace CHR ''-''"
  by (simp add: py_isspace_def code_point_def)

lemma space_not_bracket: "\<not> py_isspace CHR ''[''"
  by (simp add: py_isspace_def code_point_def)

lemma rejects_space_tail: "rejects Space LINE_TAIL"
  unfolding LINE_TAIL_def seq.simps
  by (rule rejects_seq_one) (auto simp: space_not_bracket)

lemma covers_refl: "covers r r"
  by (simp add: covers_def)

lemma covers_spaces:
  assumes "covers a n" and "rejects Space a" and "rejects Space n"
  shows "covers (Seq (Plus Space) a) (Seq (Plus Space) n)"
  unfolding covers_def seq_plus [OF assms(2)] seq_plus [OF assms(3)]
  using assms(1) by (auto simp: covers_def split: list.splits)

lemma covers_dash:
  assumes "covers a n" and "rejects Space a" and "rejects Space n"
  shows "covers (Seq (Plus NonSpace) (Seq (Plus Space) a)) (Seq (Lit CHR ''-'') (Seq (Plus Space) n))"
proof -
  have ra: "rejects NonSpace (Seq (Plus Space) a)"
    by (rule rejects_seq_plus) simp
  have c: "covers (Seq (Plus Space) a) (Seq (Plus Space) n)"
    using assms by (rule covers_spaces)
  show ?thesis
    unfolding covers_def
  proof (intro allI impI)
    fix cs s
    assume ne: "rx_match (Seq (Lit CHR ''-'') (Seq (Plus Space) n)) cs s \<noteq> []"
    then obtain xs where s: "s = CHR ''-'' # xs"
      by (cases s) (auto split: if_splits)
    with ne have ne': "rx_match (Seq (Plus Space) n) cs xs \<noteq> []" by simp
    then obtain y ys where xs: "xs = y # ys" and y: "py_isspace y"
      by (cases xs) (auto simp: seq_plus [OF assms(3)] split: if_splits)
    have "rx_match (Seq (Plus NonSpace) (Seq (Plus Space) a)) cs s
            = rx_match (Seq (Plus Space) a) cs xs"
      by (simp add: seq_plus [OF ra] s xs y space_not_dash)
    also have "\<dots> = rx_match (Seq (Plus Space) n) cs xs"
      using c ne' by (simp add: covers_def)
    also have "\<dots> = rx_match (Seq (Lit CHR ''-'') (Seq (Plus Space) n)) cs s"
      by (simp add: s)
    finally show "rx_match (Seq (Plus NonSpace) (Seq (Plus Space) a)) cs s
                    = rx_match (Seq (Lit CHR ''-'') (Seq (Plus Space) n)) cs s" .
  qed
qed

lemma covers_first_group:
  assumes "covers a n" and "rejects NonSpace a" and "rejects NonSpace n"
  shows "covers (Seq (Grp i (Plus NonSpace)) a) (Seq (Grp i (Plus NonSpace)) n)"
  unfolding covers_def seq_grp_plus [OF assms(2)] seq_grp_plus [OF assms(3)]
  using assms(1) by (auto simp: covers_def split: list.splits)

lemma apache_covers_nginx: "covers APACHE_COMBINED_REGEX NGINX_REGEX"
proof -
  let ?a1 = "Seq (Plus NonSpace) (Seq (Plus Space) LINE_TAIL)"
  let ?n1 = "Seq (Lit CHR ''-'') (Seq (Plus Space) LINE_TAIL)"
  let ?a2 = "Seq (Plus NonSpace) (Seq (Plus Space) ?a1)"
  let ?n2 = "Seq (Lit CHR ''-'') (Seq (Plus Space) ?n1)"
  have ra1: "rejects Space ?a1"
    by (rule rejects_seq_plus) simp
  have rn1: "rejects Space ?n1"
    by (rule rejects_seq_one) (auto simp: space_not_dash)
  have ra2: "rejects Space ?a2"
    by (rule rejects_seq_plus) simp
  have rn2: "rejects Space ?n2"
    by (rule rejects_seq_one) (auto simp: space_not_dash)
  have c1: "covers ?a1 ?n1"
    using covers_refl rejects_space_tail rejects_space_tail by (rule covers_dash)
  have c2: "covers ?a2 ?n2"
    using c1 ra1 rn1 by (rule covers_dash)
  have c3: "covers (Seq (Plus Space) ?a2) (Seq (Plus Space) ?n2)"
    using c2 ra2 rn2 by (rule covers_spaces)
  have "covers (Seq (Grp 0 (Plus NonSpace)) (Seq (Plus Space) ?a2))
               (Seq (Grp 0 (Plus NonSpace)) (Seq (Plus Space) ?n2))"
    using c3 by (rule covers_first_group) (rule rejects_seq_plus, simp)+
  then show ?thesis
    by (simp only: APACHE_COMBINED_REGEX_def NGINX_REGEX_def)
qed

lemma ngroups_patterns: "ngroups NGINX_REGEX = ngroups APACHE_COMBINED_REGEX"
  by (simp add: NGINX_REGEX_def APACHE_COMBINED_REGEX_def)

lemma nginx_match_apache:
  "match_groups NGINX_REGEX s = Some gs \<Longrightarrow> match_groups APACHE_COMBINED_REGEX s = Some gs"
  using apache_covers_nginx
  by (auto simp: match_groups_def covers_def ngroups_patterns split: list.splits)

lemma try_patterns_nginx_redundant:
  "try_patterns [APACHE_COMBINED_REGEX, NGINX_REGEX] line = try_patterns [APACHE_COMBINED_REGEX] line"
proof (cases "match_groups APACHE_COMBINED_REGEX line")
  case None
  then have "match_groups NGINX_REGEX line = None"
    using nginx_match_apache [of line] by (cases "match_groups NGINX_REGEX line") auto
  with None show ?thesis by simp
next
  case (Some gs)
  then show ?thesis by simp
qed

text \<open>
  C9. Whenever the second pattern (\<open>NGINX_REGEX\<close>) matches a line, the first
  (\<open>APACHE_COMBINED_REGEX\<close>) matches it with the same groups; and \<open>parse_log_line\<close>
  is the same function when the second pattern is taken out of the list.
\<close>

theorem nginx_pattern_redundant:
  "(match_groups NGINX_REGEX s = Some gs \<longrightarrow> match_groups APACHE_COMBINED_REGEX s = Some gs) \<and>
   parse_log_line line = parse_log_line_with [APACHE_COMBINED_REGEX] line"
proof
  show "match_groups NGINX_REGEX s = Some gs \<longrightarrow> match_groups APACHE_COMBINED_REGEX s = Some gs"
    using nginx_match_apache by blast
  show "parse_log_line line = parse_log_line_with [APACHE_COMBINED_REGEX] line"
    unfolding parse_log_line_def parse_log_line_with_def
    by (simp only: try_patterns_nginx_redundant)
qed


theorem nginx_pattern_redundant_witness:
  "match_groups NGINX_REGEX
     (''10.0.0.1 - - [10/Oct/2020:13:55:36 +0000] '' @ [CHR 0x22] @ ''GET /index.html HTTP/1.1''
        @ [CHR 0x22] @ '' 200 1024'')
     = Some [Some ''10.0.0.1'', Some ''10/Oct/2020:13:55:36 +0000'', Some ''GET'',
             Some ''/index.html'', Some ''HTTP/1.1'', Some ''200'', Some ''1024'',
             None, None, None] \<and>
   match_groups APACHE_COMBINED_REGEX
     (''10.0.0.1 - - [10/Oct/2020:13:55:36 +0000] '' @ [CHR 0x22] @ ''GET /index.html HTTP/1.1''
        @ [CHR 0x22] @ '' 200 1024'')
     = Some [Some ''10.0.0.1'', Some ''10/Oct/2020:13:55:36 +0000'', Some ''GET'',
             Some ''/index.html'', Some ''HTTP/1.1'', Some ''200'', Some ''1024'',
             None, None, None] \<and>
   parse_log_line ''a b c'' = parse_log_line_with [APACHE_COMBINED_REGEX] ''a b c''"
proof -
  have n: "match_groups NGINX_REGEX
     (''10.0.0.1 - - [10/Oct/2020:13:55:36 +0000] '' @ [CHR 0x22] @ ''GET /index.html HTTP/1.1''
        @ [CHR 0x22] @ '' 200 1024'')
     = Some [Some ''10.0.0.1'', Some ''10/Oct/2020:13:55:36 +0000'', Some ''GET'',
             Some ''/index.html'', Some ''HTTP/1.1'', Some ''200'', Some ''1024'',
             None, None, None]"
    by code_simp
  from nginx_pattern_redundant [of
      "''10.0.0.1 - - [10/Oct/2020:13:55:36 +0000] '' @ [CHR 0x22] @ ''GET /index.html HTTP/1.1''
        @ [CHR 0x22] @ '' 200 1024''"
      "[Some ''10.0.0.1'', Some ''10/Oct/2020:13:55:36 +0000'', Some ''GET'',
             Some ''/index.html'', Some ''HTTP/1.1'', Some ''200'', Some ''1024'',
             None, None, None]" "''a b c''"] n
  show ?thesis by blast
qed

section \<open>Sizes and statuses are not negative\<close>

lemma dropWhile_none: "\<forall>c\<in>set s. \<not> P c \<Longrightarrow> dropWhile P s = s"
  by (cases s) auto

lemma strip_with_none: "\<forall>c\<in>set s. \<not> P c \<Longrightarrow> strip_with P s = s"
  by (simp add: strip_with_def dropWhile_none)

lemma digit_not_space: "py_isdigit_char c \<Longrightarrow> \<not> py_isspace c"
  by (auto simp: py_isdigit_char_def py_isspace_def Let_def)

lemma digit_not_int_space: "py_isdigit_char c \<Longrightarrow> \<not> int_isspace c"
  by (auto simp: py_isdigit_char_def int_isspace_def Let_def)

lemma isdigit_strip: "isdigit s \<Longrightarrow> strip_with int_isspace s = s"
  unfolding isdigit_def
  by (rule strip_with_none) (auto simp: list_all_iff digit_not_int_space)

lemma digits_ok_chars: "digits_ok s \<Longrightarrow> \<forall>c\<in>set s. c = CHR ''_'' \<or> py_isdecimal c"
  by (induction s rule: digits_ok.induct) (auto split: if_splits)

lemma digit_fold_nonneg:
  "0 \<le> a \<Longrightarrow> \<forall>c\<in>set xs. py_isdecimal c \<Longrightarrow> 0 \<le> foldl (\<lambda>a c. 10 * a + digit_val c) a xs"
proof (induction xs arbitrary: a)
  case Nil
  then show ?case by simp
next
  case (Cons x xs)
  have "0 \<le> digit_val x"
    using Cons.prems(2) by (simp add: digit_val_def py_isdecimal_def Let_def)
  with Cons.prems have "0 \<le> 10 * a + digit_val x" by simp
  then show ?case using Cons by simp
qed

lemma digits_value_nonneg: "digits_ok s \<Longrightarrow> 0 \<le> digits_value s"
  unfolding digits_value_def
  by (rule digit_fold_nonneg) (use digits_ok_chars in auto)

lemma digit_not_sign: "py_isdigit_char c \<Longrightarrow> c \<noteq> CHR ''-'' \<and> c \<noteq> CHR ''+''"
  by (auto simp: py_isdigit_char_def code_point_def)

lemma py_int_isdigit_nonneg:
  assumes "isdigit s" and "py_int s = Inr n"
  shows "0 \<le> n"
proof -
  from assms(1) obtain c r where s: "s = c # r" and c: "py_isdigit_char c"
    by (cases s) (auto simp: isdigit_def)
  from c have ns: "c \<noteq> CHR ''-''" "c \<noteq> CHR ''+''" using digit_not_sign by auto
  have st: "strip_with int_isspace s = c # r" using isdigit_strip [OF assms(1)] s by simp
  from assms(2) have "digits_ok (c # r) \<and> n = digits_value (c # r)"
    unfolding py_int_def st Let_def by (simp add: ns split: if_splits)
  then show ?thesis by (simp add: digits_value_nonneg)
qed


lemma guarded_int_nonneg:
  "(if isdigit s then py_int s else Inr 0) = Inr n \<Longrightarrow> 0 \<le> n"
  using py_int_isdigit_nonneg by (auto split: if_splits)

lemma entry_of_groups_nonneg:
  assumes "entry_of_groups a b c d e f g l = Inr (Some en)"
  shows "0 \<le> size_bytes en \<and> 0 \<le> status en"
proof -
  from assms obtain sz ts st where
    sz: "(if isdigit g then py_int g else Inr 0) = Inr sz" and
    st: "(if isdigit f then py_int f else Inr 0) = Inr st" and
    en: "size_bytes en = sz" "status en = st"
    unfolding entry_of_groups_def
    by (auto split: sum.splits if_splits)
  then show ?thesis using guarded_int_nonneg by blast
qed

lemma try_patterns_nonneg:
  "try_patterns ps l = Inr (Some en) \<Longrightarrow> 0 \<le> size_bytes en \<and> 0 \<le> status en"
proof (induction ps)
  case Nil
  then show ?case by simp
next
  case (Cons p ps)
  then show ?case
    by (auto split: option.splits sum.splits dest: entry_of_groups_nonneg)
qed

lemma parse_log_line_nonneg:
  "parse_log_line l = Inr (Some en) \<Longrightarrow> 0 \<le> size_bytes en \<and> 0 \<le> status en"
  unfolding parse_log_line_def parse_log_line_with_def
  by (auto simp del: try_patterns.simps simp: Let_def split: if_splits dest: try_patterns_nonneg)

lemma csv_status_nonneg: "csv_status vals fm = Inr n \<Longrightarrow> 0 \<le> n"
  unfolding csv_status_def
  by (auto split: option.splits sum.splits dest: guarded_int_nonneg)

lemma csv_size_nonneg: "csv_size vals fm = Inr (Some n) \<Longrightarrow> 0 \<le> n"
  unfolding csv_size_def
  by (auto split: option.splits sum.splits if_splits dest: py_int_isdigit_nonneg)

lemma csv_line_try_nonneg:
  assumes "csv_line_try fromiso vals fm l = Inr (Some en)"
  shows "0 \<le> size_bytes en \<and> 0 \<le> status en"
proof -
  from assms have "csv_status vals fm = Inr (status en) \<and> csv_size vals fm = Inr (Some (size_bytes en))"
    unfolding csv_line_try_def
    by (simp split: sum.splits option.splits if_splits) auto
  then show ?thesis using csv_status_nonneg csv_size_nonneg by blast
qed

lemma parse_csv_line_nonneg:
  "parse_csv_line fromiso vals fm l = Inr (Some en) \<Longrightarrow> 0 \<le> size_bytes en \<and> 0 \<le> status en"
  unfolding parse_csv_line_def
  by (auto split: sum.splits error.splits dest: csv_line_try_nonneg)

lemma csv_rows_nonneg:
  "csv_rows fromiso d fm i ls es errs = Inr (es', errs') \<Longrightarrow> nonneg_entries es \<Longrightarrow> nonneg_entries es'"
proof (induction ls arbitrary: i es errs)
  case Nil
  then show ?case by simp
next
  case (Cons l ls)
  show ?case
  proof (cases "strip l = []")
    case True
    with Cons show ?thesis by simp
  next
    case False
    let ?vals = "map (\<lambda>v. strip_chars QUOTES (strip v)) (split d (strip l))"
    show ?thesis
    proof (cases "parse_csv_line fromiso ?vals fm (strip l)")
      case (Inl e)
      with Cons.prems False show ?thesis by (simp add: Let_def)
    next
      case (Inr r)
      show ?thesis
      proof (cases r)
        case None
        with Cons Inr False show ?thesis by (simp add: Let_def)
      next
        case (Some en)
        with Inr have "0 \<le> size_bytes en \<and> 0 \<le> status en"
          using parse_csv_line_nonneg by blast
        with Cons.prems(2) have "nonneg_entries (es @ [en])"
          by (simp add: nonneg_entries_def)
        with Cons.IH [of "Suc i" "es @ [en]" errs] Cons.prems(1) Inr Some False
        show ?thesis by (simp add: Let_def)
      qed
    qed
  qed
qed

lemma log_lines_nonneg:
  "log_lines i ls es errs = Inr (es', errs') \<Longrightarrow> nonneg_entries es \<Longrightarrow> nonneg_entries es'"
proof (induction ls arbitrary: i es errs)
  case Nil
  then show ?case by simp
next
  case (Cons l ls)
  show ?case
  proof (cases "parse_log_line l")
    case (Inl e)
    with Cons.prems show ?thesis by simp
  next
    case (Inr r)
    show ?thesis
    proof (cases r)
      case None
      with Cons Inr show ?thesis by simp
    next
      case (Some en)
      with Inr have "0 \<le> size_bytes en \<and> 0 \<le> status en"
        using parse_log_line_nonneg by blast
      with Cons.prems(2) have "nonneg_entries (es @ [en])"
        by (simp add: nonneg_entries_def)
      with Cons.IH [of "Suc i" "es @ [en]" errs] Cons.prems(1) Inr Some
      show ?thesis by simp
    qed
  qed
qed

lemma parse_csv_file_nonneg:
  "parse_csv_file fromiso ls = Inr (es, errs) \<Longrightarrow> nonneg_entries es"
  unfolding parse_csv_file_def
  by (auto simp del: csv_rows.simps simp: Let_def nonneg_entries_def
      split: list.splits if_splits dest!: csv_rows_nonneg)

lemma parse_log_file_nonneg:
  "parse_log_file fromiso content = Inr (es, errs) \<Longrightarrow> nonneg_entries es"
  unfolding parse_log_file_def
  by (auto simp del: log_lines.simps simp: nonneg_entries_def split: list.splits if_splits
      dest!: log_lines_nonneg parse_csv_file_nonneg)


text \<open>
  C8. A record has a size and a status that are not negative, on every parsing path:
  the record that \<open>parse_log_line\<close> builds from the groups of a line
  (\<open>entry_of_groups\<close>), the record that \<open>parse_csv_line\<close> builds from a row, and
  every record that \<open>parse_log_file\<close> returns.
\<close>

theorem records_nonneg:
  "(entry_of_groups a b c d e f g l = Inr (Some en) \<longrightarrow>
      0 \<le> size_bytes en \<and> 0 \<le> status en) \<and>
   (parse_csv_line fromisoformat vals field_map l' = Inr (Some en') \<longrightarrow>
      0 \<le> size_bytes en' \<and> 0 \<le> status en') \<and>
   (parse_log_file fromisoformat content = Inr (entries, errors) \<longrightarrow>
      (\<forall>x\<in>set entries. 0 \<le> size_bytes x \<and> 0 \<le> status x))"
  using entry_of_groups_nonneg [of a b c d e f g l en]
    parse_csv_line_nonneg [of fromisoformat vals field_map l' en']
    parse_log_file_nonneg [of fromisoformat content entries errors]
  by (simp add: nonneg_entries_def list_all_iff)

theorem records_nonneg_witness:
  "entry_of_groups ''10.0.0.1'' ''10/Oct/2020:13:55:36 +0000'' ''GET'' ''/index.html''
     ''HTTP/1.1'' ''200'' ''1024'' (combined_line ''1024'')
     = Inr (Some (combined_entry 1024 (combined_line ''1024''))) \<and>
   parse_csv_line (\<lambda>s. None) [''1.2.3.4'', ''/a'', ''200'', ''500'']
     (csv_field_map ''ip,path,status,bytes'') ''1.2.3.4,/a,200,500''
     = Inr (Some csv_example_entry) \<and>
   parse_log_file (\<lambda>s. None) csv_example = Inr ([csv_example_entry], []) \<and>
   (0::int) \<le> size_bytes csv_example_entry \<and> (0::int) \<le> status csv_example_entry \<and>
   (0::int) \<le> size_bytes (combined_entry 1024 (combined_line ''1024''))"
proof -
  have h1: "entry_of_groups ''10.0.0.1'' ''10/Oct/2020:13:55:36 +0000'' ''GET'' ''/index.html''
     ''HTTP/1.1'' ''200'' ''1024'' (combined_line ''1024'')
     = Inr (Some (combined_entry 1024 (combined_line ''1024'')))"
    by code_simp
  have h2: "parse_csv_line (\<lambda>s. None) [''1.2.3.4'', ''/a'', ''200'', ''500'']
     (csv_field_map ''ip,path,status,bytes'') ''1.2.3.4,/a,200,500''
     = Inr (Some csv_example_entry)"
    by code_simp
  have h3: "parse_log_file (\<lambda>s. None) csv_example = Inr ([csv_example_entry], [])"
    by code_simp
  from records_nonneg [of "''10.0.0.1''" "''10/Oct/2020:13:55:36 +0000''" "''GET''"
      "''/index.html''" "''HTTP/1.1''" "''200''" "''1024''" "combined_line ''1024''"
      "combined_entry 1024 (combined_line ''1024'')"
      "\<lambda>s. None" "[''1.2.3.4'', ''/a'', ''200'', ''500'']"
      "csv_field_map ''ip,path,status,bytes''" "''1.2.3.4,/a,200,500''" csv_example_entry
      csv_example "[csv_example_entry]" "[]"] h1 h2 h3
  show ?thesis by simp
qed

section \<open>Unpacking the groups of a line pattern\<close>

text \<open>
  Both line patterns have ten groups, and \<open>match.groups()\<close> returns all of them, so the
  unpacking into seven names raises ValueError on every line that a pattern matches;
  \<open>parse_log_line\<close> has no \<open>try\<close> around it.
\<close>

lemma rx_match_length:
  "(cs', s') \<in> set (rx_match r cs s) \<Longrightarrow> length cs' = length cs"
  by (induction r arbitrary: cs s cs' s') (auto split: list.splits if_splits)

lemma match_groups_length: "match_groups r s = Some gs \<Longrightarrow> length gs = ngroups r"
proof -
  assume m: "match_groups r s = Some gs"
  then obtain rest tl where "rx_match r (replicate (ngroups r) None) s = (gs, rest) # tl"
    by (auto simp: match_groups_def split: list.splits)
  then have "(gs, rest) \<in> set (rx_match r (replicate (ngroups r) None) s)" by simp
  then show ?thesis using rx_match_length by fastforce
qed

lemma ngroups_apache: "ngroups APACHE_COMBINED_REGEX = 10"
  by (simp add: APACHE_COMBINED_REGEX_def LINE_TAIL_def)

lemma unpack7_length: "length gs \<noteq> 7 \<Longrightarrow> unpack7 gs = Inl ValueError"
  by (cases gs rule: unpack7.cases) auto

lemma ngroups_nginx: "ngroups NGINX_REGEX = 10"
  by (simp add: NGINX_REGEX_def LINE_TAIL_def)

lemma match_unpack_raises:
  "ngroups p = 10 \<Longrightarrow> match_groups p l = Some gs \<Longrightarrow> unpack7 gs = Inl ValueError"
  using match_groups_length [of p l gs] by (simp add: unpack7_length)

lemma try_patterns_no_record:
  "\<forall>p\<in>set ps. ngroups p = 10 \<Longrightarrow> try_patterns ps l \<noteq> Inr (Some en)"
proof (induction ps)
  case Nil
  then show ?case by simp
next
  case (Cons p ps)
  show ?case
  proof (cases "match_groups p l")
    case None
    with Cons show ?thesis by simp
  next
    case (Some gs)
    with Cons.prems have "unpack7 gs = Inl ValueError"
      using match_unpack_raises [of p l gs] by simp
    with Some show ?thesis by simp
  qed
qed

lemma parse_log_line_no_record: "parse_log_line l \<noteq> Inr (Some en)"
proof -
  have "try_patterns [APACHE_COMBINED_REGEX, NGINX_REGEX] (strip l) \<noteq> Inr (Some en)"
    by (rule try_patterns_no_record) (simp add: ngroups_apache ngroups_nginx)
  then show ?thesis
    unfolding parse_log_line_def parse_log_line_with_def Let_def
    by (simp del: try_patterns.simps)
qed

text \<open>
  C5. On the literal line of the claim the first pattern matches and captures the
  expected fields in groups 1 to 7, with groups 8 to 10 unset; unpacking the ten groups
  into seven names raises ValueError, which \<open>parse_log_line\<close> and \<open>parse_log_file\<close>
  let through. The record that lines 70 to 86 would build from the seven fields is the
  one the claim describes.
\<close>

theorem combined_line_unpack_raises:
  "match_groups APACHE_COMBINED_REGEX (combined_line ''1024'') = Some (combined_groups ''1024'') \<and>
   unpack7 (combined_groups ''1024'') = Inl ValueError \<and>
   parse_log_line (combined_line ''1024'') = Inl ValueError \<and>
   parse_log_file fromisoformat (combined_line ''1024'') = Inl ValueError \<and>
   entry_of_groups ''10.0.0.1'' ''10/Oct/2020:13:55:36 +0000'' ''GET'' ''/index.html''
     ''HTTP/1.1'' ''200'' ''1024'' (combined_line ''1024'')
     = Inr (Some (combined_entry 1024 (combined_line ''1024'')))"
  by code_simp

text \<open>
  C2. On a line whose size token is \<open>abc\<close> the first pattern matches, and
  \<open>parse_log_line\<close> raises ValueError at the unpacking; the record that lines 70 to 86
  would build from the seven fields has size 0.
\<close>

theorem non_numeric_size_unpack_raises:
  "match_groups APACHE_COMBINED_REGEX (combined_line ''abc'') = Some (combined_groups ''abc'') \<and>
   parse_log_line (combined_line ''abc'') = Inl ValueError \<and>
   entry_of_groups ''10.0.0.1'' ''10/Oct/2020:13:55:36 +0000'' ''GET'' ''/index.html''
     ''HTTP/1.1'' ''200'' ''abc'' (combined_line ''abc'')
     = Inr (Some (combined_entry 0 (combined_line ''abc'')))"
  by code_simp


section \<open>Lines with the size token -\<close>

lemma entry_of_groups_dash: "entry_of_groups a b c d e f ''-'' l = Inr None"
  by (simp add: entry_of_groups_def)

lemma matched_line_raises:
  assumes "strip line \<noteq> []"
    and "match_groups APACHE_COMBINED_REGEX (strip line) = Some gs"
  shows "parse_log_line line = Inl ValueError"
proof -
  have "unpack7 gs = Inl ValueError"
    using assms(2) ngroups_apache by (rule match_unpack_raises [rotated])
  with assms show ?thesis
    by (simp add: parse_log_line_def parse_log_line_with_def)
qed

text \<open>
  C1. On the literal line ending in \<open>200 -\<close> the first pattern matches with the size
  group \<open>-\<close>. Lines 74 and 75 would return \<open>None\<close> for it, whatever the other fields
  are, but they are not reached: the unpacking of line 68 raises ValueError, so
  \<open>parse_log_line\<close> and \<open>parse_log_file\<close> raise instead of leaving the line out.
\<close>

theorem size_dash_line_raises:
  "match_groups APACHE_COMBINED_REGEX (combined_line ''-'') = Some (combined_groups ''-'') \<and>
   unpack7 (combined_groups ''-'') = Inl ValueError \<and>
   parse_log_line (combined_line ''-'') = Inl ValueError \<and>
   parse_log_file fromisoformat (combined_line ''-'') = Inl ValueError \<and>
   entry_of_groups ''10.0.0.1'' ''10/Oct/2020:13:55:36 +0000'' ''GET'' ''/index.html''
     ''HTTP/1.1'' ''200'' ''-'' (combined_line ''-'') = Inr None"
  by code_simp

section \<open>The field map of a header row\<close>

text \<open>
  \<open>header_role\<close> is the chain of tests in the loop of \<open>detect_csv_fields\<close>, and one
  turn of the loop stores the index under that role.
\<close>

lemma detect_loop_append:
  "detect_loop k (hs @ [h]) fm = detect_step (k + length hs) h (detect_loop k hs fm)"
  by (induction hs arbitrary: k fm) simp_all

lemma header_role_cases:
  "header_role header =
     (let h = strip_chars QUOTES (strip (lower header))
      in if contains h ''ip'' \<or> contains h ''address'' \<or> contains h ''client''
           then Some ''ip''
         else if contains h ''time'' \<or> contains h ''date''
           then Some ''timestamp''
         else if contains h ''method'' \<or> contains h ''verb''
           then Some ''method''
         else if contains h ''path'' \<or> contains h ''url'' \<or> contains h ''uri''
                 \<or> contains h ''request''
           then Some ''path''
         else if contains h ''status'' \<or> contains h ''code'' \<or> contains h ''response''
           then Some ''status''
         else if contains h ''size'' \<or> contains h ''bytes'' \<or> contains h ''length''
           then Some ''size''
         else None)"
  unfolding header_role_def ROLE_KEYWORDS_def Let_def
  by (simp only: find.simps list_ex_Nil_iff list_ex_Cons_iff case_prod_conv fst_conv option.map if_distrib [of "map_option fst"]
        simp_thms cong: if_cong)


lemma if_chain6:
  "f (if b1 then x1 else if b2 then x2 else if b3 then x3 else if b4 then x4
      else if b5 then x5 else if b6 then x6 else y)
   = (if b1 then f x1 else if b2 then f x2 else if b3 then f x3 else if b4 then f x4
      else if b5 then f x5 else if b6 then f x6 else f y)"
  by simp

lemma detect_step_role:
  "detect_step i header fm = (case header_role header of None \<Rightarrow> fm | Some r \<Rightarrow> fm(r \<mapsto> i))"
  unfolding detect_step_def header_role_cases Let_def
  by (simp only: if_chain6 [of "case_option fm (\<lambda>r. fm(r \<mapsto> i))"] option.case)

lemma detect_csv_fields_snoc:
  "detect_csv_fields (hs @ [h]) role =
     (if header_role h = Some role then Some (length hs) else detect_csv_fields hs role)"
  unfolding detect_csv_fields_def detect_loop_append detect_step_role
  by (cases "header_role h") auto

text \<open>
  C10. The field map gives a role the index of the last header column that takes the
  role, and nothing when no column takes it, where the role a column takes is the first
  one, in the order of precedence, one of whose keywords occurs in the header
  (\<open>header_role\<close>): a column that matches an earlier role is not considered for a
  later one.
\<close>

theorem detect_csv_fields_last_match:
  "detect_csv_fields headers role = Some i \<longleftrightarrow>
     i < length headers \<and> header_role (headers ! i) = Some role \<and>
     (\<forall>j. i < j \<and> j < length headers \<longrightarrow> header_role (headers ! j) \<noteq> Some role)"
proof (induction headers rule: rev_induct)
  case Nil
  then show ?case by (simp add: detect_csv_fields_def)
next
  case (snoc h hs)
  show ?case
  proof (cases "header_role h = Some role")
    case True
    have "(length hs = i) \<longleftrightarrow>
          (i < Suc (length hs) \<and> header_role ((hs @ [h]) ! i) = Some role \<and>
           (\<forall>j. i < j \<and> j < Suc (length hs) \<longrightarrow> header_role ((hs @ [h]) ! j) \<noteq> Some role))"
    proof
      assume "length hs = i"
      then show "i < Suc (length hs) \<and> header_role ((hs @ [h]) ! i) = Some role \<and>
           (\<forall>j. i < j \<and> j < Suc (length hs) \<longrightarrow> header_role ((hs @ [h]) ! j) \<noteq> Some role)"
        using True by auto
    next
      assume r: "i < Suc (length hs) \<and> header_role ((hs @ [h]) ! i) = Some role \<and>
           (\<forall>j. i < j \<and> j < Suc (length hs) \<longrightarrow> header_role ((hs @ [h]) ! j) \<noteq> Some role)"
      show "length hs = i"
      proof (rule ccontr)
        assume "length hs \<noteq> i"
        with r have "i < length hs" by simp
        with r have "i < length hs \<and> length hs < Suc (length hs)" by simp
        with r have "header_role ((hs @ [h]) ! length hs) \<noteq> Some role" by blast
        with True show False by simp
      qed
    qed
    with True show ?thesis by (simp add: detect_csv_fields_snoc eq_commute)
  next
    case False
    have "(i < length hs \<and> header_role (hs ! i) = Some role \<and>
           (\<forall>j. i < j \<and> j < length hs \<longrightarrow> header_role (hs ! j) \<noteq> Some role)) \<longleftrightarrow>
          (i < Suc (length hs) \<and> header_role ((hs @ [h]) ! i) = Some role \<and>
           (\<forall>j. i < j \<and> j < Suc (length hs) \<longrightarrow> header_role ((hs @ [h]) ! j) \<noteq> Some role))"
      (is "?L \<longleftrightarrow> ?R")
    proof
      assume l: ?L
      have "\<And>j. i < j \<and> j < Suc (length hs) \<Longrightarrow> header_role ((hs @ [h]) ! j) \<noteq> Some role"
      proof -
        fix j assume j: "i < j \<and> j < Suc (length hs)"
        show "header_role ((hs @ [h]) ! j) \<noteq> Some role"
        proof (cases "j < length hs")
          case True
          with l j show ?thesis by (simp add: nth_append)
        next
          case False
          with j have "j = length hs" by simp
          with \<open>header_role h \<noteq> Some role\<close> show ?thesis by simp
        qed
      qed
      with l show ?R by (simp add: nth_append)
    next
      assume r: ?R
      have i: "i < length hs"
      proof (rule ccontr)
        assume "\<not> i < length hs"
        with r have "i = length hs" by simp
        with r False show False by simp
      qed
      have "\<And>j. i < j \<and> j < length hs \<Longrightarrow> header_role (hs ! j) \<noteq> Some role"
      proof -
        fix j assume j: "i < j \<and> j < length hs"
        with r have "header_role ((hs @ [h]) ! j) \<noteq> Some role" by simp
        with j show "header_role (hs ! j) \<noteq> Some role" by (simp add: nth_append)
      qed
      with r i show ?L by (simp add: nth_append)
    qed
    with False snoc.IH show ?thesis by (simp add: detect_csv_fields_snoc)
  qed
qed

theorem detect_csv_fields_last_match_witness:
  "detect_csv_fields example_headers ''ip'' = Some 1 \<and>
   header_role (example_headers ! 0) = Some ''ip'' \<and>
   header_role (example_headers ! 1) = Some ''ip'' \<and>
   header_role ''request_time'' = Some ''timestamp'' \<and>
   detect_csv_fields example_headers ''timestamp'' = Some 2 \<and>
   detect_csv_fields example_headers ''path'' = None"
proof -
  have a: "detect_csv_fields example_headers ''ip'' = Some 1" by code_simp
  have b: "header_role (example_headers ! 0) = Some ''ip''" by code_simp
  have c: "header_role ''request_time'' = Some ''timestamp''" by code_simp
  have d: "detect_csv_fields example_headers ''timestamp'' = Some 2" by code_simp
  have e: "detect_csv_fields example_headers ''path'' = None" by code_simp
  from detect_csv_fields_last_match [of example_headers "''ip''" 1] a
  have "header_role (example_headers ! 1) = Some ''ip''" by blast
  with a b c d e show ?thesis by simp
qed

section \<open>Hourly traffic\<close>

lemma count_list_hours:
  "count_list (row_hours df) h =
     length (filter (\<lambda>r. case timestamp r of None \<Rightarrow> False | Some t \<Rightarrow> hour t = h) df)"
  unfolding row_hours_def
  by (induction df) (auto split: option.splits)

lemma map_of_group_count:
  "map_of (group_count hs) h = (if h \<in> set hs then Some (count_list hs h) else None)"
proof -
  have "map_of (map (\<lambda>k. (k, count_list hs k)) ks) h
          = (if h \<in> set ks then Some (count_list hs h) else None)" for ks
    by (induction ks) auto
  then show ?thesis by (simp add: group_count_def)
qed

lemma count_list_absent: "h \<notin> set hs \<Longrightarrow> count_list hs h = 0"
  by (induction hs) auto

lemma hourly_traffic_counts:
  "hourly_traffic_counter df = map (\<lambda>h. (h, count_list (row_hours df) h)) [0..23]"
  unfolding hourly_traffic_counter_def Let_def
  by (rule map_cong) (auto simp: map_of_group_count count_list_absent)

lemma sum_indicator:
  "distinct xs \<Longrightarrow> sum_list (map (\<lambda>x. if x = h then 1 else 0) xs) = (if h \<in> set xs then 1 else (0::nat))"
  by (induction xs) auto

lemma sum_count_list:
  "distinct xs \<Longrightarrow> sum_list (map (count_list hs) xs) = length (filter (\<lambda>h. h \<in> set xs) hs)"
proof (induction hs)
  case Nil
  then show ?case by simp
next
  case (Cons a hs)
  have "sum_list (map (count_list (a # hs)) xs)
          = sum_list (map (\<lambda>x. count_list hs x + (if x = a then 1 else 0)) xs)"
    by (rule arg_cong [where f = sum_list], rule map_cong) auto
  also have "\<dots> = sum_list (map (count_list hs) xs) + sum_list (map (\<lambda>x. if x = a then 1 else 0) xs)"
    by (simp add: sum_list_addf)
  also have "\<dots> = length (filter (\<lambda>h. h \<in> set xs) hs) + (if a \<in> set xs then 1 else 0)"
    using Cons by (simp add: sum_indicator)
  finally show ?case by (simp del: count_list.simps)
qed

lemma sum_hourly:
  "sum_list (map snd (hourly_traffic_counter df))
     = length (filter (\<lambda>h. 0 \<le> h \<and> h \<le> 23) (row_hours df))"
proof -
  have "sum_list (map snd (hourly_traffic_counter df))
          = sum_list (map (count_list (row_hours df)) [0..23])"
    by (simp add: hourly_traffic_counts comp_def)
  also have "\<dots> = length (filter (\<lambda>h. h \<in> set [0..23]) (row_hours df))"
    by (rule sum_count_list) simp
  finally show ?thesis by simp
qed

lemma length_row_hours: "length (row_hours df) \<le> length df"
  by (simp add: row_hours_def)

text \<open>
  C4. The hourly traffic has 24 entries, one for each hour from 0 to 23 in this order;
  the count of an hour is the number of rows whose timestamp is present and has that
  hour, so it is zero for an hour without rows, and rows without a timestamp are counted
  nowhere. The counts add up to at most the number of rows, and to exactly that number
  when every row has a timestamp (a valid instant, as every \<open>datetime\<close> is).
\<close>

theorem hourly_traffic_dense:
  "length (hourly_traffic_counter df) = 24 \<and>
   hourly_traffic_counter df =
     map (\<lambda>h. (h, length (filter (\<lambda>r. case timestamp r of None \<Rightarrow> False
                                        | Some t \<Rightarrow> hour t = h) df))) [0..23] \<and>
   sum_list (map snd (hourly_traffic_counter df)) \<le> length df \<and>
   ((\<forall>r\<in>set df. \<exists>t. timestamp r = Some t \<and> valid_datetime t) \<longrightarrow>
      sum_list (map snd (hourly_traffic_counter df)) = length df)"
proof (intro conjI impI)
  show "length (hourly_traffic_counter df) = 24"
    by (simp add: hourly_traffic_counts)
  show "hourly_traffic_counter df =
     map (\<lambda>h. (h, length (filter (\<lambda>r. case timestamp r of None \<Rightarrow> False
                                        | Some t \<Rightarrow> hour t = h) df))) [0..23]"
    by (simp only: hourly_traffic_counts count_list_hours)
  have "sum_list (map snd (hourly_traffic_counter df))
          = length (filter (\<lambda>h. 0 \<le> h \<and> h \<le> 23) (row_hours df))"
    by (rule sum_hourly)
  also have "\<dots> \<le> length (row_hours df)"
    by (rule length_filter_le)
  also have "\<dots> \<le> length df"
    by (rule length_row_hours)
  finally show "sum_list (map snd (hourly_traffic_counter df)) \<le> length df" .
next
  assume v: "\<forall>r\<in>set df. \<exists>t. timestamp r = Some t \<and> valid_datetime t"
  then have "filter (\<lambda>r. timestamp r \<noteq> None) df = df"
    by (auto simp: filter_id_conv)
  then have len: "length (row_hours df) = length df"
    by (simp add: row_hours_def)
  have "\<forall>h\<in>set (row_hours df). 0 \<le> h \<and> h \<le> 23"
    using v by (fastforce simp: row_hours_def valid_datetime_def)
  then have "filter (\<lambda>h. 0 \<le> h \<and> h \<le> 23) (row_hours df) = row_hours df"
    by (simp add: filter_id_conv)
  then show "sum_list (map snd (hourly_traffic_counter df)) = length df"
    by (simp add: sum_hourly len)
qed

theorem hourly_traffic_dense_witness:
  "length (hourly_traffic_counter [row_at_hour 3, row_at_hour 23, row_at_hour 3]) = 24 \<and>
   sum_list (map snd (hourly_traffic_counter [row_at_hour 3, row_at_hour 23, row_at_hour 3])) = 3 \<and>
   sum_list (map snd (hourly_traffic_counter [row_at_hour 3, row_with_status 200])) = 1 \<and>
   hourly_traffic_counter [row_at_hour 3, row_at_hour 23, row_at_hour 3] ! 3 = (3, 2)"
proof -
  have v: "\<forall>r\<in>set [row_at_hour 3, row_at_hour 23, row_at_hour 3].
             \<exists>t. timestamp r = Some t \<and> valid_datetime t"
    by (simp add: valid_datetime_def days_in_month_def)
  have a: "sum_list (map snd (hourly_traffic_counter [row_at_hour 3, row_with_status 200])) = 1"
    by code_simp
  have b: "hourly_traffic_counter [row_at_hour 3, row_at_hour 23, row_at_hour 3] ! 3 = (3, 2)"
    by code_simp
  have c: "sum_list (map snd (hourly_traffic_counter [row_at_hour 3, row_at_hour 23, row_at_hour 3]))
             = length [row_at_hour 3, row_at_hour 23, row_at_hour 3]"
    using hourly_traffic_dense [of "[row_at_hour 3, row_at_hour 23, row_at_hour 3]"] v by blast
  have d: "length (hourly_traffic_counter [row_at_hour 3, row_at_hour 23, row_at_hour 3]) = 24"
    using hourly_traffic_dense [of "[row_at_hour 3, row_at_hour 23, row_at_hour 3]"] by blast
  from a b c d show ?thesis by simp
qed

section \<open>Bounds of the filter that cannot be converted\<close>

text \<open>
  C7. A date bound that is a number, or a size bound that is a list, is truthy, so it
  is converted; the conversion raises TypeError, and \<open>apply_filters\<close> catches only
  ValueError: the exception leaves the filter engine.
\<close>

theorem non_string_bound_raises:
  "apply_filters fromisoformat df (no_filters\<lparr>dateRange_start := PInt 1602338136\<rparr>)
     = Inl TypeError \<and>
   apply_filters fromisoformat df (no_filters\<lparr>sizeRange_min := PList [PInt 1]\<rparr>)
     = Inl TypeError"
  by (simp add: apply_filters_def date_clause_def size_clause_def)

lemma middle_clauses_bounds [simp]:
  "middle_clauses (f\<lparr>dateRange_start := a\<rparr>) df = middle_clauses f df"
  "middle_clauses (f\<lparr>dateRange_end := a\<rparr>) df = middle_clauses f df"
  "middle_clauses (f\<lparr>sizeRange_min := a\<rparr>) df = middle_clauses f df"
  "middle_clauses (f\<lparr>sizeRange_max := a\<rparr>) df = middle_clauses f df"
  by (simp_all add: middle_clauses_def Let_def)

lemma date_clause_bad_string:
  "fromisoformat s = None \<Longrightarrow> date_clause fromisoformat (PStr s) cmp df = Inr df"
  by (simp add: date_clause_def)

lemma size_clause_bad_string:
  "py_int s = Inl ValueError \<Longrightarrow> size_clause (PStr s) cmp df = Inr df"
  by (simp add: size_clause_def)

lemma clause_absent [simp]:
  "date_clause fromisoformat PNone cmp df = Inr df" "size_clause PNone cmp' df = Inr df"
  by (simp_all add: date_clause_def size_clause_def)

text \<open>
  X1. For bounds that are strings the clause is skipped as if the bound were absent: a date
  bound that \<open>fromisoformat\<close> rejects, and a size bound that \<open>int\<close> rejects, leave
  the result of \<open>apply_filters\<close> what it is without the bound, all other clauses
  applied.
\<close>

theorem bad_string_bounds_ignored:
  "(fromisoformat s = None \<longrightarrow>
      apply_filters fromisoformat df (f\<lparr>dateRange_start := PStr s\<rparr>)
        = apply_filters fromisoformat df (f\<lparr>dateRange_start := PNone\<rparr>) \<and>
      apply_filters fromisoformat df (f\<lparr>dateRange_end := PStr s\<rparr>)
        = apply_filters fromisoformat df (f\<lparr>dateRange_end := PNone\<rparr>)) \<and>
   (py_int s' = Inl ValueError \<longrightarrow>
      apply_filters fromisoformat df (f\<lparr>sizeRange_min := PStr s'\<rparr>)
        = apply_filters fromisoformat df (f\<lparr>sizeRange_min := PNone\<rparr>) \<and>
      apply_filters fromisoformat df (f\<lparr>sizeRange_max := PStr s'\<rparr>)
        = apply_filters fromisoformat df (f\<lparr>sizeRange_max := PNone\<rparr>))"
  by (simp add: apply_filters_def date_clause_bad_string size_clause_bad_string
      cong: sum.case_cong)

theorem bad_string_bounds_ignored_witness:
  "py_int ''big'' = Inl ValueError \<and>
   apply_filters (\<lambda>s. None) [row_with_status 200, row_with_status 404]
     (no_filters\<lparr>statusCodes := [404], dateRange_start := PStr ''yesterday''\<rparr>)
     = Inr [row_with_status 404] \<and>
   apply_filters (\<lambda>s. None) [row_with_status 200, row_with_status 404]
     (no_filters\<lparr>statusCodes := [404], sizeRange_max := PStr ''big''\<rparr>)
     = Inr [row_with_status 404]"
proof -
  have p: "py_int ''big'' = Inl ValueError" by code_simp
  have e: "apply_filters (\<lambda>s. None) [row_with_status 200, row_with_status 404]
     (no_filters\<lparr>statusCodes := [404]\<rparr>) = Inr [row_with_status 404]"
    by (simp add: apply_filters_def middle_clauses_def status_clause_def combined_condition_def
        status_condition_def)
  have n: "(\<lambda>s::string. None::datetime option) ''yesterday'' = None" by simp
  from bad_string_bounds_ignored [of "\<lambda>s. None" "''yesterday''"
      "[row_with_status 200, row_with_status 404]" "no_filters\<lparr>statusCodes := [404]\<rparr>" "''big''"]
    p e n
  show ?thesis by simp
qed

end
